theory Spec2Isabelle
  imports Main "HOL-Library.Sublist"
begin

section \<open>Python values and exceptions\<close>

text \<open>
  A Python exception object, as far as the program looks at it: its class name and the
  text that \<^verbatim>\<open>str(e)\<close> (and \<^verbatim>\<open>{e}\<close> in an f-string) gives. Every exception of the model
  derives from \<^verbatim>\<open>Exception\<close>, the class that the handlers of the program name
  (\<^verbatim>\<open>except Exception as e\<close>); interpreter signals such as \<^verbatim>\<open>KeyboardInterrupt\<close>
  are no failures of a call and are left out.
\<close>

datatype py_exception = PyException (exc_class: string) (exc_str: string)

text \<open>The outcome of a call: \<open>Inl e\<close> when it raises \<open>e\<close>, \<open>Inr v\<close> when it returns \<open>v\<close>.\<close>

type_synonym 'a outcome = "py_exception + 'a"

text \<open>Sequencing of two calls: the second runs only when the first has returned.\<close>

definition and_then :: "'a outcome \<Rightarrow> ('a \<Rightarrow> 'b outcome) \<Rightarrow> 'b outcome" where
  "and_then m f = (case m of Inl e \<Rightarrow> Inl e | Inr v \<Rightarrow> f v)"

text \<open>\<^verbatim>\<open>try: body  except Exception as e: handler(e)\<close>\<close>

definition try_except :: "'a outcome \<Rightarrow> (py_exception \<Rightarrow> 'a outcome) \<Rightarrow> 'a outcome" where
  "try_except body handler = (case body of Inl e \<Rightarrow> handler e | Inr v \<Rightarrow> Inr v)"

text \<open>
  Truth value of what \<^verbatim>\<open>os.getenv\<close> returns: \<^verbatim>\<open>None\<close> and the empty string are
  false, every other string is true.
\<close>

fun truthy :: "string option \<Rightarrow> bool" where
  "truthy None = False"
| "truthy (Some s) = (s \<noteq> [])"

text \<open>\<^verbatim>\<open>all([...])\<close> on a list of such values.\<close>

fun py_all :: "string option list \<Rightarrow> bool" where
  "py_all [] = True"
| "py_all (v # vs) = (truthy v \<and> py_all vs)"

text \<open>How an f-string renders a value that is a string or \<^verbatim>\<open>None\<close>.\<close>

fun fmt :: "string option \<Rightarrow> string" where
  "fmt None = ''None''"
| "fmt (Some s) = s"

text \<open>\<^verbatim>\<open>sep.join(xs)\<close>\<close>

fun str_join :: "string \<Rightarrow> string list \<Rightarrow> string" where
  "str_join sep [] = []"
| "str_join sep [x] = x"
| "str_join sep (x # y # ys) = x @ sep @ str_join sep (y # ys)"

section \<open>The storage plugin (\<^verbatim>\<open>blob_agent.py\<close>, class \<^verbatim>\<open>BlobStoragePlugin\<close>)\<close>

type_synonym bytes = string

text \<open>
  The container client of the Azure SDK, by what the plugin calls on it:
  \<^item> \<open>list_blob_names\<close>: \<^verbatim>\<open>list_blobs()\<close> iterated to the end, giving the names of the
    blobs in listing order, or the exception raised on the way;
  \<^item> \<open>blob_exists name\<close>: \<^verbatim>\<open>get_blob_client(name).exists()\<close>;
  \<^item> \<open>download_blob name\<close>: \<^verbatim>\<open>download_blob().readall()\<close> on that blob client.
\<close>

record container_client =
  list_blob_names :: "string list outcome"
  blob_exists :: "string \<Rightarrow> bool outcome"
  download_blob :: "string \<Rightarrow> bytes outcome"

text \<open>
  A pandas data frame: the column labels and the data rows in file order (a row holds its
  index label and its cells; \<open>'c\<close> is the type of both).
\<close>

record 'c dataframe =
  columns :: "string list"
  rows :: "'c list list"

text \<open>\<^verbatim>\<open>df.head(n)\<close>: the first \<open>n\<close> rows.\<close>

definition head :: "nat \<Rightarrow> 'c dataframe \<Rightarrow> 'c dataframe" where
  "head n df = df\<lparr>rows := take n (rows df)\<rparr>"

text \<open>
  The two pandas calls of the plugin. Both are library code: \<open>read_csv\<close> parses the
  downloaded bytes or raises, \<open>to_markdown\<close> renders a frame as a table or raises (it
  needs the optional \<^verbatim>\<open>tabulate\<close> package).
\<close>

record 'c pandas =
  read_csv :: "bytes \<Rightarrow> 'c dataframe outcome"
  to_markdown :: "'c dataframe \<Rightarrow> string outcome"

text \<open>The fields of a constructed plugin that its two tools read.\<close>

record plugin =
  container_name :: string
  the_container_client :: container_client

text \<open>The line \<^verbatim>\<open>read_csv_blob\<close> prints before it touches the storage.\<close>

definition read_csv_blob_notice :: "string \<Rightarrow> string" where
  "read_csv_blob_notice blob_name = CHR 0x0A # ''[Tool] Downloading blob: '' @ blob_name @ ''...''"

text \<open>The message of the early return for a blob that is not there.\<close>

definition missing_blob_message :: "plugin \<Rightarrow> string \<Rightarrow> string" where
  "missing_blob_message self blob_name =
     ''Error: Blob '' @ [CHR 0x27] @ blob_name @ [CHR 0x27] @ '' does not exist in container ''
       @ [CHR 0x27] @ container_name self @ [CHR 0x27] @ ''.''"

text \<open>The body of the \<^verbatim>\<open>try\<close> block of \<^verbatim>\<open>read_csv_blob\<close>.\<close>

definition read_csv_blob_body :: "'c pandas \<Rightarrow> plugin \<Rightarrow> string \<Rightarrow> string outcome" where
  "read_csv_blob_body pd self blob_name =
     and_then (blob_exists (the_container_client self) blob_name) (\<lambda>found.
       if \<not> found then Inr (missing_blob_message self blob_name)
       else
         and_then (download_blob (the_container_client self) blob_name) (\<lambda>blob_data.
         and_then (read_csv pd blob_data) (\<lambda>df.
         to_markdown pd (head 10 df))))"

definition read_csv_blob :: "'c pandas \<Rightarrow> plugin \<Rightarrow> string \<Rightarrow> string outcome" where
  "read_csv_blob pd self blob_name =
     try_except (read_csv_blob_body pd self blob_name)
       (\<lambda>e. Inr (''Error reading blob: '' @ exc_str e))"

text \<open>The body of the \<^verbatim>\<open>try\<close> block of \<^verbatim>\<open>list_blobs\<close>.\<close>

definition list_blobs_body :: "plugin \<Rightarrow> string outcome" where
  "list_blobs_body self =
     and_then (list_blob_names (the_container_client self)) (\<lambda>blob_names.
       Inr (if blob_names \<noteq> [] then str_join '', '' blob_names else ''No blobs found.''))"

definition list_blobs :: "plugin \<Rightarrow> string outcome" where
  "list_blobs self =
     try_except (list_blobs_body self) (\<lambda>e. Inr (''Error listing blobs: '' @ exc_str e))"

section \<open>The dialogue transcript\<close>

text \<open>An entry of the transcript, tagged by the role that wrote it.\<close>

datatype entry =
    System string
  | User string
  | Assistant string
  | ToolResult string string

text \<open>
  Modelled from the spec: the transcript class \<^verbatim>\<open>ChatHistory\<close> belongs to the agent
  framework and is not part of the source. By its contract, \<open>append\<close> adds an entry at
  the end of the ordered sequence and \<open>snapshot\<close> gives all entries in order; the
  program reaches \<open>append\<close> through \<^verbatim>\<open>add_system_message\<close>, \<^verbatim>\<open>add_user_message\<close> and
  \<^verbatim>\<open>add_message\<close>.
\<close>

type_synonym ChatHistory = "entry list"

text \<open>
  Modelled from the spec: \<open>append(entry)\<close> of the transcript, which the framework's
  \<^verbatim>\<open>add_message\<close> stands for.
\<close>

definition add_message :: "ChatHistory \<Rightarrow> entry \<Rightarrow> ChatHistory" where
  "add_message h m = h @ [m]"

definition add_system_message :: "ChatHistory \<Rightarrow> string \<Rightarrow> ChatHistory" where
  "add_system_message h s = add_message h (System s)"

definition add_user_message :: "ChatHistory \<Rightarrow> string \<Rightarrow> ChatHistory" where
  "add_user_message h s = add_message h (User s)"

text \<open>
  Modelled from the spec: \<open>snapshot()\<close> of the transcript, all entries in order.
\<close>

definition snapshot :: "ChatHistory \<Rightarrow> entry list" where
  "snapshot h = h"

text \<open>A run of appends, from the left.\<close>

definition appends :: "ChatHistory \<Rightarrow> entry list \<Rightarrow> ChatHistory" where
  "appends h es = foldl add_message h es"

section \<open>The chat loop (\<^verbatim>\<open>blob_agent.py\<close>, \<^verbatim>\<open>main\<close>)\<close>

text \<open>What the process does at its terminal: a \<^verbatim>\<open>print\<close>, or a line read by \<^verbatim>\<open>input("User: ")\<close>.\<close>

datatype event = Print string | Input string

text \<open>
  One call of \<^verbatim>\<open>get_chat_message_content\<close> with automatic function calling. The call
  is library code and gets the history object itself. As the completion driver of the
  specification does, it adds an entry for each tool round it runs and changes nothing
  else: \<open>tool_entries\<close> are the entries it adds, in order, and \<open>result\<close> is the exception
  that the call raises or the content of the final message it returns.
\<close>

record completion =
  tool_entries :: "entry list"
  result :: "string outcome"

record chat_state =
  history :: ChatHistory
  trace :: "event list"

text \<open>
  How \<^verbatim>\<open>main\<close> ends: it returns (the interpreter then exits with code 0), or an
  exception leaves it (traceback, exit code 1).
\<close>

datatype status = Returned | Propagated py_exception

fun exit_code :: "status \<Rightarrow> nat" where
  "exit_code Returned = 0"
| "exit_code (Propagated e) = 1"

text \<open>
  \<^verbatim>\<open>str.lower()\<close> on the letters that matter to the loop: an upper-case ASCII letter
  becomes its lower-case one. No character outside ASCII lowers to one of the letters of
  \<^verbatim>\<open>exit\<close> and \<^verbatim>\<open>quit\<close>, so those are left as they are.
\<close>

definition lower_char :: "char \<Rightarrow> char" where
  "lower_char c =
     (case map_of (zip ''ABCDEFGHIJKLMNOPQRSTUVWXYZ'' ''abcdefghijklmnopqrstuvwxyz'') c of
        Some l \<Rightarrow> l
      | None \<Rightarrow> c)"

definition py_lower :: "string \<Rightarrow> string" where
  "py_lower s = map lower_char s"

definition is_exit_command :: "string \<Rightarrow> bool" where
  "is_exit_command user_input \<longleftrightarrow> py_lower user_input \<in> set [''exit'', ''quit'']"

text \<open>
  The loop body after the exit test: the user message is appended, the provider is
  called, and the \<^verbatim>\<open>try\<close> block either prints the answer and appends it, or prints
  the exception.
\<close>

definition chat_turn :: "(ChatHistory \<Rightarrow> completion) \<Rightarrow> chat_state \<Rightarrow> string \<Rightarrow> chat_state" where
  "chat_turn provider st user_input =
     (let h1 = add_user_message (history st) user_input;
          c = provider h1;
          h2 = appends h1 (tool_entries c)
      in case result c of
           Inr content \<Rightarrow>
             \<lparr>history = add_message h2 (Assistant content),
              trace = trace st @ [Print (''Agent: '' @ content @ [CHR 0x0A])]\<rparr>
         | Inl e \<Rightarrow>
             \<lparr>history = h2,
              trace = trace st @ [Print (''Error during chat: '' @ exc_str e)]\<rparr>)"

text \<open>
  \<^verbatim>\<open>while True\<close> over the lines that standard input holds. At the end of the input,
  \<^verbatim>\<open>input\<close> raises \<^verbatim>\<open>EOFError\<close>, which nothing catches.
\<close>

fun chat_loop :: "(ChatHistory \<Rightarrow> completion) \<Rightarrow> chat_state \<Rightarrow> string list \<Rightarrow> chat_state \<times> status" where
  "chat_loop provider st [] = (st, Propagated (PyException ''EOFError'' ''EOF when reading a line''))"
| "chat_loop provider st (user_input # rest) =
     (let st1 = st\<lparr>trace := trace st @ [Input user_input]\<rparr>
      in if is_exit_command user_input then (st1, Returned)
         else chat_loop provider (chat_turn provider st1 user_input) rest)"

text \<open>
  Everything outside the program that \<^verbatim>\<open>main\<close> depends on:
  \<^item> \<open>getenv\<close>: the environment after \<^verbatim>\<open>load_dotenv()\<close>;
  \<^item> \<open>azure_chat_completion\<close>: building the chat service from deployment name, endpoint,
    API key and API version and adding it to the kernel (\<open>Some e\<close>: it raises \<open>e\<close>);
  \<^item> \<open>blob_service_client\<close>: building the storage client from account URL and credential
    and taking the client of the named container;
  \<^item> \<open>add_plugin\<close>: registering the plugin with the kernel;
  \<^item> \<open>get_chat_message_content\<close>: the completion call, as a function of the history it
    is given.
\<close>

record world =
  getenv :: "string \<Rightarrow> string option"
  azure_chat_completion :: "string \<Rightarrow> string \<Rightarrow> string \<Rightarrow> string \<Rightarrow> py_exception option"
  blob_service_client :: "string \<Rightarrow> string \<Rightarrow> string \<Rightarrow> container_client outcome"
  add_plugin :: "plugin \<Rightarrow> py_exception option"
  get_chat_message_content :: "ChatHistory \<Rightarrow> completion"

text \<open>
  \<^verbatim>\<open>BlobStoragePlugin.__init__\<close>. Past the credentials test the three values are
  strings, which is where \<open>the\<close> reads them.
\<close>

definition BlobStoragePlugin_init :: "world \<Rightarrow> plugin outcome" where
  "BlobStoragePlugin_init w =
     (let account_name = getenv w ''AZURE_STORAGE_ACCOUNT_NAME'';
          account_key = getenv w ''AZURE_STORAGE_ACCOUNT_KEY'';
          container = getenv w ''AZURE_STORAGE_CONTAINER_NAME''
      in if \<not> py_all [account_name, account_key, container]
         then Inl (PyException ''ValueError'' ''Azure Blob Storage credentials are missing in .env file.'')
         else
           and_then
             (blob_service_client w (''https://'' @ fmt account_name @ ''.blob.core.windows.net'')
                (the account_key) (the container))
             (\<lambda>cc. Inr \<lparr>container_name = the container, the_container_client = cc\<rparr>))"

definition system_message :: string where
  "system_message = ''You are an AI assistant that can read data from Azure Blob Storage using the BlobTools plugin. Always check what files are available first if you are unsure.''"

definition banner :: "event list" where
  "banner = [Print ''--- Azure Blob Storage Agent (Semantic Kernel) ---'',
             Print (''Type '' @ [CHR 0x27] @ ''exit'' @ [CHR 0x27] @ '' to quit.'' @ [CHR 0x0A])]"

definition missing_openai_message :: string where
  "missing_openai_message = ''Missing Azure OpenAI credentials in .env file. Please configure them.''"

definition main :: "world \<Rightarrow> string list \<Rightarrow> chat_state \<times> status" where
  "main w stdin =
     (let deployment_name = getenv w ''AZURE_OPENAI_DEPLOYMENT_NAME'';
          endpoint = getenv w ''AZURE_OPENAI_ENDPOINT'';
          api_key = getenv w ''AZURE_OPENAI_API_KEY''
      in if \<not> py_all [deployment_name, endpoint, api_key]
         then (\<lparr>history = [], trace = [Print missing_openai_message]\<rparr>, Returned)
         else
           (case azure_chat_completion w (the deployment_name) (the endpoint) (the api_key)
                   ''2025-01-01-preview'' of
              Some e \<Rightarrow> (\<lparr>history = [], trace = []\<rparr>, Propagated e)
            | None \<Rightarrow>
                (case and_then (BlobStoragePlugin_init w) (\<lambda>p.
                        case add_plugin w p of Some e \<Rightarrow> Inl e | None \<Rightarrow> Inr p) of
                   Inl e \<Rightarrow>
                     (\<lparr>history = [],
                       trace = [Print (''Failed to initialize BlobStoragePlugin: '' @ exc_str e)]\<rparr>,
                      Returned)
                 | Inr p \<Rightarrow>
                     chat_loop (get_chat_message_content w)
                       \<lparr>history = add_system_message [] system_message, trace = banner\<rparr> stdin)))"

text \<open>
  The variables that \<^verbatim>\<open>main\<close> and the plugin read, as lists, and the line printed when the
  plugin finds its credentials missing.
\<close>

definition openai_variables :: "string list" where
  "openai_variables = [''AZURE_OPENAI_DEPLOYMENT_NAME'', ''AZURE_OPENAI_ENDPOINT'', ''AZURE_OPENAI_API_KEY'']"

definition storage_variables :: "string list" where
  "storage_variables = [''AZURE_STORAGE_ACCOUNT_NAME'', ''AZURE_STORAGE_ACCOUNT_KEY'', ''AZURE_STORAGE_CONTAINER_NAME'']"

definition missing_storage_message :: string where
  "missing_storage_message =
     ''Failed to initialize BlobStoragePlugin: Azure Blob Storage credentials are missing in .env file.''"

section \<open>The connection test (\<^verbatim>\<open>test_openai.py\<close>, \<^verbatim>\<open>main\<close>)\<close>

text \<open>The line about the API key: its first five characters, or \<^verbatim>\<open>None\<close>.\<close>

definition api_key_line :: "string option \<Rightarrow> string" where
  "api_key_line api_key =
     (if truthy api_key then ''API Key: '' @ take 5 (the api_key) @ ''...'' else ''API Key: None'')"

text \<open>What the script prints about its configuration, before it builds the service.\<close>

definition diagnostics :: "(string \<Rightarrow> string option) \<Rightarrow> string list" where
  "diagnostics env =
     (let deployment_name = env ''AZURE_OPENAI_DEPLOYMENT_NAME'';
          endpoint = env ''AZURE_OPENAI_ENDPOINT'';
          api_key = env ''AZURE_OPENAI_API_KEY''
      in [''Testing Azure OpenAI Connection...'',
          ''Endpoint: '' @ fmt endpoint,
          ''Deployment: '' @ fmt deployment_name,
          api_key_line api_key])"

text \<open>
  The \<^verbatim>\<open>try\<close> block of the script: \<open>service\<close> builds the chat service from the three
  values (\<open>Some e\<close>: it raises \<open>e\<close>), \<open>request\<close> is the outcome of the one completion call.
\<close>

definition connection_test ::
  "(string option \<Rightarrow> string option \<Rightarrow> string option \<Rightarrow> py_exception option) \<Rightarrow> string outcome \<Rightarrow>
   (string \<Rightarrow> string option) \<Rightarrow> string list" where
  "connection_test service request env =
     (case service (env ''AZURE_OPENAI_DEPLOYMENT_NAME'') (env ''AZURE_OPENAI_ENDPOINT'')
             (env ''AZURE_OPENAI_API_KEY'') of
        Some e \<Rightarrow> [''Connection Failed: '' @ exc_str e]
      | None \<Rightarrow>
          [''Service object created.'', ''Sending request...''] @
          (case request of
             Inl e \<Rightarrow> [''Connection Failed: '' @ exc_str e]
           | Inr r \<Rightarrow> [''Success! Response: '' @ r]))"

definition test_openai_main ::
  "(string option \<Rightarrow> string option \<Rightarrow> string option \<Rightarrow> py_exception option) \<Rightarrow> string outcome \<Rightarrow>
   (string \<Rightarrow> string option) \<Rightarrow> string list" where
  "test_openai_main service request env = diagnostics env @ connection_test service request env"

section \<open>Words of the specification\<close>

text \<open>
  The specification compares the input line with \<^verbatim>\<open>exit\<close> and \<^verbatim>\<open>quit\<close>
  case-insensitively. Written from those words, not from the code: two characters are the
  same letter when they are equal or are the upper-case and lower-case form of one letter,
  and two strings are equal up to case when they are so position by position.
\<close>

definition same_letter :: "char \<Rightarrow> char \<Rightarrow> bool" where
  "same_letter a b \<longleftrightarrow>
     a = b
     \<or> (a, b) \<in> set (zip ''ABCDEFGHIJKLMNOPQRSTUVWXYZ'' ''abcdefghijklmnopqrstuvwxyz'')
     \<or> (b, a) \<in> set (zip ''ABCDEFGHIJKLMNOPQRSTUVWXYZ'' ''abcdefghijklmnopqrstuvwxyz'')"

definition eq_ignore_case :: "string \<Rightarrow> string \<Rightarrow> bool" where
  "eq_ignore_case a b \<longleftrightarrow> list_all2 same_letter a b"

section \<open>Example stores and libraries\<close>

text \<open>
  A container held in memory, as a list of blob names with their contents: listing gives
  the names in order, a blob exists when it has an entry, and downloading a blob that
  has none raises.
\<close>

definition memory_container :: "(string \<times> bytes) list \<Rightarrow> container_client" where
  "memory_container blobs =
     \<lparr>list_blob_names = Inr (map fst blobs),
      blob_exists = (\<lambda>name. Inr (map_of blobs name \<noteq> None)),
      download_blob = (\<lambda>name. case map_of blobs name of
          None \<Rightarrow> Inl (PyException ''ResourceNotFoundError'' ''The specified blob does not exist.'')
        | Some d \<Rightarrow> Inr d)\<rparr>"

text \<open>A container that cannot be reached: every call raises with the given text.\<close>

definition unreachable_container :: "string \<Rightarrow> container_client" where
  "unreachable_container msg =
     \<lparr>list_blob_names = Inl (PyException ''ServiceRequestError'' msg),
      blob_exists = (\<lambda>name. Inl (PyException ''ServiceRequestError'' msg)),
      download_blob = (\<lambda>name. Inl (PyException ''ServiceRequestError'' msg))\<rparr>"

definition unreachable_plugin :: plugin where
  "unreachable_plugin = \<lparr>container_name = ''data'', the_container_client = unreachable_container ''timeout''\<rparr>"

text \<open>A pandas installation in which nothing parses and nothing renders.\<close>

definition no_pandas :: "nat pandas" where
  "no_pandas = \<lparr>read_csv = (\<lambda>d. Inl (PyException ''ParserError'' ''bad'')),
                to_markdown = (\<lambda>df. Inl (PyException ''ImportError'' ''Missing optional dependency tabulate''))\<rparr>"

definition sales_plugin :: plugin where
  "sales_plugin = \<lparr>container_name = ''data'',
      the_container_client = memory_container [(''a.csv'', ''x,y''), (''b.csv'', ''u,v'')]\<rparr>"

definition sentinel_plugin :: plugin where
  "sentinel_plugin = \<lparr>container_name = ''data'',
      the_container_client = memory_container [(''No blobs found.'', ''x,y'')]\<rparr>"

definition two_blobs_plugin :: plugin where
  "two_blobs_plugin = \<lparr>container_name = ''data'',
      the_container_client = memory_container [(''a.csv'', ''x,y''), (''b.csv'', ''u,v'')]\<rparr>"

definition denied_plugin :: plugin where
  "denied_plugin = \<lparr>container_name = ''data'', the_container_client = unreachable_container ''AuthenticationFailed''\<rparr>"

text \<open>
  A pandas stand-in whose parser gives a frame of twelve rows and whose renderer draws
  one stroke for each row of the frame it is given.
\<close>

definition count_rows :: "nat dataframe \<Rightarrow> string outcome" where
  "count_rows df = Inr (replicate (length (rows df)) CHR ''|'')"

definition twelve_rows :: "nat dataframe" where
  "twelve_rows = \<lparr>columns = [''n''], rows = map (\<lambda>i. [i]) [0..<12]\<rparr>"

definition row_counting_pandas :: "nat pandas" where
  "row_counting_pandas = \<lparr>read_csv = (\<lambda>d. Inr twelve_rows), to_markdown = count_rows\<rparr>"

text \<open>
  A world in which every library call succeeds: the environment is the given list of
  variables, the storage holds one blob, and the provider answers \<^verbatim>\<open>ok\<close>.
\<close>

definition demo_world :: "(string \<times> string) list \<Rightarrow> world" where
  "demo_world vars =
     \<lparr>getenv = map_of vars,
      azure_chat_completion = (\<lambda>deployment endpoint key version. None),
      blob_service_client = (\<lambda>url credential container. Inr (memory_container [(''a.csv'', ''x,y'')])),
      add_plugin = (\<lambda>p. None),
      get_chat_message_content = (\<lambda>h. \<lparr>tool_entries = [], result = Inr ''ok''\<rparr>)\<rparr>"

definition six_variables :: "(string \<times> string) list" where
  "six_variables =
     [(''AZURE_OPENAI_DEPLOYMENT_NAME'', ''gpt-4o''),
      (''AZURE_OPENAI_ENDPOINT'', ''https://example.openai.azure.com''),
      (''AZURE_OPENAI_API_KEY'', ''0123456789abcdef''),
      (''AZURE_STORAGE_ACCOUNT_NAME'', ''acct''),
      (''AZURE_STORAGE_ACCOUNT_KEY'', ''c2VjcmV0''),
      (''AZURE_STORAGE_CONTAINER_NAME'', ''data'')]"

definition no_api_key :: "(string \<times> string) list" where
  "no_api_key =
     [(''AZURE_OPENAI_DEPLOYMENT_NAME'', ''gpt-4o''),
      (''AZURE_OPENAI_ENDPOINT'', ''https://example.openai.azure.com''),
      (''AZURE_STORAGE_ACCOUNT_NAME'', ''acct''),
      (''AZURE_STORAGE_ACCOUNT_KEY'', ''c2VjcmV0''),
      (''AZURE_STORAGE_CONTAINER_NAME'', ''data'')]"

definition no_container_name :: "(string \<times> string) list" where
  "no_container_name =
     [(''AZURE_OPENAI_DEPLOYMENT_NAME'', ''gpt-4o''),
      (''AZURE_OPENAI_ENDPOINT'', ''https://example.openai.azure.com''),
      (''AZURE_OPENAI_API_KEY'', ''0123456789abcdef''),
      (''AZURE_STORAGE_ACCOUNT_NAME'', ''acct''),
      (''AZURE_STORAGE_ACCOUNT_KEY'', ''c2VjcmV0'')]"

text \<open>
  A provider that fails on the first turn of a conversation and, from the second on, runs
  one tool and answers.
\<close>

definition failing_once :: "ChatHistory \<Rightarrow> completion" where
  "failing_once h =
     (if length h \<le> 2 then \<lparr>tool_entries = [], result = Inl (PyException ''ServiceResponseException'' ''connection reset'')\<rparr>
      else \<lparr>tool_entries = [ToolResult ''list_blobs'' ''a.csv, b.csv''], result = Inr ''Two files.''\<rparr>)"

text \<open>A provider that always answers \<^verbatim>\<open>ok\<close>.\<close>

definition echo :: "ChatHistory \<Rightarrow> completion" where
  "echo h = \<lparr>tool_entries = [], result = Inr ''ok''\<rparr>"

text \<open>An environment of the connection test, by its API key.\<close>

definition key_env :: "string \<Rightarrow> string \<Rightarrow> string option" where
  "key_env key = map_of
     [(''AZURE_OPENAI_DEPLOYMENT_NAME'', ''gpt-4o''),
      (''AZURE_OPENAI_ENDPOINT'', ''https://example.openai.azure.com''),
      (''AZURE_OPENAI_API_KEY'', key)]"

text \<open>A chat service that is built without complaint.\<close>

definition accepting_service :: "string option \<Rightarrow> string option \<Rightarrow> string option \<Rightarrow> py_exception option" where
  "accepting_service deployment_name endpoint api_key = None"

text \<open>A chat service that refuses its key with a text that quotes the key.\<close>

definition quoting_service :: "string option \<Rightarrow> string option \<Rightarrow> string option \<Rightarrow> py_exception option" where
  "quoting_service deployment_name endpoint api_key =
     Some (PyException ''ServiceInitializationError'' (''invalid api key '' @ fmt api_key))"

section \<open>Exceptions and the two tools\<close>

lemma try_except_Inl: "try_except (Inl e) h = h e"
  by (simp add: try_except_def)

lemma try_except_Inr: "try_except (Inr v) h = Inr v"
  by (simp add: try_except_def)

lemma and_then_Inl: "and_then (Inl e) f = Inl e"
  by (simp add: and_then_def)

lemma and_then_Inr: "and_then (Inr v) f = f v"
  by (simp add: and_then_def)

lemma list_blobs_cases:
  "list_blobs self =
     (case list_blob_names (the_container_client self) of
        Inl e \<Rightarrow> Inr (''Error listing blobs: '' @ exc_str e)
      | Inr names \<Rightarrow> Inr (if names \<noteq> [] then str_join '', '' names else ''No blobs found.''))"
  by (simp add: list_blobs_def list_blobs_body_def try_except_def and_then_def split: sum.splits)

lemma read_csv_blob_returns: "\<exists>s. read_csv_blob pd self n = Inr s"
  by (cases "read_csv_blob_body pd self n") (simp_all add: read_csv_blob_def try_except_def)

lemma str_join_sep: "2 \<le> length names \<Longrightarrow> set sep \<subseteq> set (str_join sep names)"
  by (induction sep names rule: str_join.induct) auto

lemma str_join_comma: "2 \<le> length names \<Longrightarrow> CHR '','' \<in> set (str_join '', '' names)"
  using str_join_sep [of names "'', ''"] by auto

lemma str_join_is_sentinel:
  "names \<noteq> [] \<Longrightarrow> str_join '', '' names = ''No blobs found.'' \<longleftrightarrow> names = [''No blobs found.'']"
proof (cases names)
  case Nil
  then show "names \<noteq> [] \<Longrightarrow> ?thesis" by simp
next
  case (Cons x xs)
  show ?thesis
  proof (cases xs)
    case Nil
    with Cons show ?thesis by simp
  next
    case (Cons y ys)
    with \<open>names = x # xs\<close> have "2 \<le> length names" by simp
    then have "CHR '','' \<in> set (str_join '', '' names)" by (rule str_join_comma)
    moreover have "CHR '','' \<notin> set ''No blobs found.''" by simp
    ultimately have "str_join '', '' names \<noteq> ''No blobs found.''" by metis
    with Cons \<open>names = x # xs\<close> show ?thesis by simp
  qed
qed

text \<open>
  Where a failure of \<^verbatim>\<open>read_csv_blob\<close> can come from: the body raises exactly when
  one of its four calls raises, each call being reached only when those before it have
  returned and the blob exists.
\<close>

lemma read_csv_blob_body_raises:
  "read_csv_blob_body pd self blob_name = Inl e \<longleftrightarrow>
     blob_exists (the_container_client self) blob_name = Inl e
     \<or> (blob_exists (the_container_client self) blob_name = Inr True
        \<and> (download_blob (the_container_client self) blob_name = Inl e
           \<or> (\<exists>blob_data. download_blob (the_container_client self) blob_name = Inr blob_data
                \<and> (read_csv pd blob_data = Inl e
                   \<or> (\<exists>df. read_csv pd blob_data = Inr df \<and> to_markdown pd (head 10 df) = Inl e)))))"
  by (auto simp add: read_csv_blob_body_def and_then_def split: sum.splits)

lemma list_blobs_body_raises:
  "list_blobs_body self = Inl e \<longleftrightarrow> list_blob_names (the_container_client self) = Inl e"
  by (simp add: list_blobs_body_def and_then_def split: sum.splits)

text \<open>
  Claim C1, as the code has it. A failure raised inside the body of a tool does not leave
  the tool: \<^verbatim>\<open>read_csv_blob\<close> returns \<^verbatim>\<open>Error reading blob: \<close> followed by the text of
  the exception, \<^verbatim>\<open>list_blobs\<close> returns \<^verbatim>\<open>Error listing blobs: \<close> followed by it. Both
  texts begin with \<^verbatim>\<open>Error\<close>, and both tools return on every input, so the caller of
  the tool sees an ordinary result and the turn goes on.
\<close>

theorem tool_failure_contained:
  "(read_csv_blob_body pd self blob_name = Inl e \<longrightarrow>
      read_csv_blob pd self blob_name = Inr (''Error reading blob: '' @ exc_str e)
      \<and> prefix ''Error'' (''Error reading blob: '' @ exc_str e))
   \<and> (list_blobs_body self = Inl e' \<longrightarrow>
      list_blobs self = Inr (''Error listing blobs: '' @ exc_str e')
      \<and> prefix ''Error'' (''Error listing blobs: '' @ exc_str e'))
   \<and> (\<exists>s. read_csv_blob pd self blob_name = Inr s)
   \<and> (\<exists>s. list_blobs self = Inr s)"
proof -
  have "\<exists>s. list_blobs self = Inr s"
    by (simp add: list_blobs_cases split: sum.splits)
  then show ?thesis
    using read_csv_blob_returns [of pd self blob_name]
    by (simp add: read_csv_blob_def list_blobs_def try_except_Inl)
qed

text \<open>The theorem at a store that times out.\<close>

theorem tool_failure_contained_witness:
  "read_csv_blob_body no_pandas unreachable_plugin ''a.csv'' = Inl (PyException ''ServiceRequestError'' ''timeout'')
   \<and> list_blobs_body unreachable_plugin = Inl (PyException ''ServiceRequestError'' ''timeout'')
   \<and> read_csv_blob no_pandas unreachable_plugin ''a.csv'' = Inr ''Error reading blob: timeout''
   \<and> list_blobs unreachable_plugin = Inr ''Error listing blobs: timeout''"
proof -
  have b1: "read_csv_blob_body no_pandas unreachable_plugin ''a.csv'' = Inl (PyException ''ServiceRequestError'' ''timeout'')"
    by (simp add: read_csv_blob_body_def and_then_def unreachable_plugin_def unreachable_container_def)
  have b2: "list_blobs_body unreachable_plugin = Inl (PyException ''ServiceRequestError'' ''timeout'')"
    by (simp add: list_blobs_body_def and_then_def unreachable_plugin_def unreachable_container_def)
  from b1 b2 show ?thesis
    using tool_failure_contained [of no_pandas unreachable_plugin "''a.csv''"
        "PyException ''ServiceRequestError'' ''timeout''" "PyException ''ServiceRequestError'' ''timeout''"]
    by simp
qed

text \<open>
  Claim C1 as written asks for the prefix \<^verbatim>\<open>Error:\<close>. When the listing times out, the
  text that \<^verbatim>\<open>list_blobs\<close> returns has a blank, not a colon, after \<^verbatim>\<open>Error\<close>.
\<close>

theorem tool_failure_prefix_counterexample:
  "list_blobs_body unreachable_plugin = Inl (PyException ''ServiceRequestError'' ''timeout'')
   \<and> list_blobs unreachable_plugin = Inr ''Error listing blobs: timeout''
   \<and> \<not> prefix ''Error:'' ''Error listing blobs: timeout''"
  by (simp add: list_blobs_def list_blobs_body_def try_except_def and_then_def
      unreachable_plugin_def unreachable_container_def)

lemma missing_blob_message_shape:
  "prefix ''Error:'' (missing_blob_message self blob_name)
   \<and> sublist ''does not exist'' (missing_blob_message self blob_name)"
proof
  show "prefix ''Error:'' (missing_blob_message self blob_name)"
    by (simp add: missing_blob_message_def)
  have "missing_blob_message self blob_name =
      (''Error: Blob '' @ [CHR 0x27] @ blob_name @ [CHR 0x27] @ '' '') @ ''does not exist''
        @ ('' in container '' @ [CHR 0x27] @ container_name self @ [CHR 0x27] @ ''.'')"
    by (simp add: missing_blob_message_def)
  then show "sublist ''does not exist'' (missing_blob_message self blob_name)"
    unfolding sublist_def by blast
qed

text \<open>
  Claim C2. When the existence test answers that the blob is not in the container,
  \<^verbatim>\<open>read_csv_blob\<close> returns the message of its early return, which begins with
  \<^verbatim>\<open>Error:\<close> and contains \<^verbatim>\<open>does not exist\<close>.
\<close>

theorem read_csv_blob_missing:
  assumes "blob_exists (the_container_client self) blob_name = Inr False"
  shows "read_csv_blob pd self blob_name = Inr (missing_blob_message self blob_name)
         \<and> prefix ''Error:'' (missing_blob_message self blob_name)
         \<and> sublist ''does not exist'' (missing_blob_message self blob_name)"
proof -
  from assms have "read_csv_blob_body pd self blob_name = Inr (missing_blob_message self blob_name)"
    by (simp add: read_csv_blob_body_def and_then_Inr)
  then have "read_csv_blob pd self blob_name = Inr (missing_blob_message self blob_name)"
    by (simp add: read_csv_blob_def try_except_Inr)
  with missing_blob_message_shape [of self blob_name] show ?thesis by simp
qed

text \<open>The theorem at a container of two blobs, asked for a third.\<close>

theorem read_csv_blob_missing_witness:
  "blob_exists (the_container_client sales_plugin) ''missing.csv'' = Inr False
   \<and> read_csv_blob no_pandas sales_plugin ''missing.csv''
       = Inr (''Error: Blob '' @ [CHR 0x27] @ ''missing.csv'' @ [CHR 0x27]
              @ '' does not exist in container '' @ [CHR 0x27] @ ''data'' @ [CHR 0x27] @ ''.'')"
proof -
  have h: "blob_exists (the_container_client sales_plugin) ''missing.csv'' = Inr False"
    by (simp add: sales_plugin_def memory_container_def)
  from read_csv_blob_missing [OF h, of no_pandas] h show ?thesis
    by (simp add: missing_blob_message_def sales_plugin_def)
qed

text \<open>
  Claim C3, as the code has it. When the listing returns, \<^verbatim>\<open>list_blobs\<close> returns
  \<^verbatim>\<open>No blobs found.\<close> for a container without blobs and the names joined by a comma and
  a blank otherwise. The returned text is \<^verbatim>\<open>No blobs found.\<close> when the container is
  empty, and besides that only when its one blob has that very name.
\<close>

theorem list_blobs_joined:
  assumes "list_blob_names (the_container_client self) = Inr names"
  shows "list_blobs self = Inr (if names = [] then ''No blobs found.'' else str_join '', '' names)
         \<and> (list_blobs self = Inr ''No blobs found.'' \<longleftrightarrow> names = [] \<or> names = [''No blobs found.''])"
proof -
  from assms have r: "list_blobs self = Inr (if names = [] then ''No blobs found.'' else str_join '', '' names)"
    by (simp add: list_blobs_cases)
  show ?thesis
  proof (cases "names = []")
    case True
    with r show ?thesis by simp
  next
    case False
    with r str_join_is_sentinel [OF False] show ?thesis by simp
  qed
qed

text \<open>The theorem at the container of the blobs \<^verbatim>\<open>a.csv\<close> and \<^verbatim>\<open>b.csv\<close>.\<close>

theorem list_blobs_joined_witness:
  "list_blob_names (the_container_client two_blobs_plugin) = Inr [''a.csv'', ''b.csv'']
   \<and> list_blobs two_blobs_plugin = Inr ''a.csv, b.csv''"
proof -
  have h: "list_blob_names (the_container_client two_blobs_plugin) = Inr [''a.csv'', ''b.csv'']"
    by (simp add: two_blobs_plugin_def memory_container_def)
  from list_blobs_joined [OF h] h show ?thesis by simp
qed

text \<open>
  Claim C3 as written says that \<^verbatim>\<open>No blobs found.\<close> is returned exactly when the
  container holds no blobs. A container whose only blob is named \<^verbatim>\<open>No blobs found.\<close>
  holds a blob, and the tool returns that text.
\<close>

theorem list_blobs_sentinel_counterexample:
  "list_blob_names (the_container_client sentinel_plugin) = Inr [''No blobs found.'']
   \<and> list_blobs sentinel_plugin = Inr ''No blobs found.''"
  by (simp add: list_blobs_cases sentinel_plugin_def memory_container_def)

text \<open>
  Claim C9. \<^verbatim>\<open>list_blobs\<close> returns on every input, and when the listing of the storage
  raises, what it returns is \<^verbatim>\<open>Error listing blobs: \<close> followed by the text of the
  exception: a text that begins with \<^verbatim>\<open>Error listing blobs:\<close> and contains the
  exception text.
\<close>

theorem list_blobs_never_raises:
  "(\<exists>s. list_blobs self = Inr s)
   \<and> (list_blob_names (the_container_client self) = Inl e \<longrightarrow>
        list_blobs self = Inr (''Error listing blobs: '' @ exc_str e)
        \<and> prefix ''Error listing blobs:'' (''Error listing blobs: '' @ exc_str e)
        \<and> sublist (exc_str e) (''Error listing blobs: '' @ exc_str e))"
proof -
  have "\<exists>s. list_blobs self = Inr s"
    by (simp add: list_blobs_cases split: sum.splits)
  moreover have "sublist (exc_str e) (''Error listing blobs: '' @ exc_str e)"
    by (rule sublist_append_leftI)
  ultimately show ?thesis
    by (simp add: list_blobs_cases)
qed

text \<open>The theorem at a store that refuses the credentials.\<close>

theorem list_blobs_never_raises_witness:
  "list_blob_names (the_container_client denied_plugin) = Inl (PyException ''ServiceRequestError'' ''AuthenticationFailed'')
   \<and> list_blobs denied_plugin = Inr ''Error listing blobs: AuthenticationFailed''"
proof -
  have h: "list_blob_names (the_container_client denied_plugin) = Inl (PyException ''ServiceRequestError'' ''AuthenticationFailed'')"
    by (simp add: denied_plugin_def unreachable_container_def)
  from list_blobs_never_raises [of denied_plugin "PyException ''ServiceRequestError'' ''AuthenticationFailed''"] h
  show ?thesis by simp
qed

lemma head_rows: "rows (head n df) = take n (rows df) \<and> columns (head n df) = columns df"
  by (simp add: head_def)

text \<open>
  Claim C4. For a blob that exists, downloads, parses and renders, \<^verbatim>\<open>read_csv_blob\<close>
  returns the rendering of \<^verbatim>\<open>df.head(10)\<close>: a frame whose rows are the first ten rows
  of the parsed frame, so at most ten, however many the blob holds. Any frame with the same
  columns and the same first ten rows gives the same text.
\<close>

theorem read_csv_blob_preview:
  fixes pd :: "'c pandas"
  assumes "blob_exists (the_container_client self) blob_name = Inr True"
    and "download_blob (the_container_client self) blob_name = Inr blob_data"
    and "read_csv pd blob_data = Inr df"
    and "to_markdown pd (head 10 df) = Inr table"
  shows "read_csv_blob pd self blob_name = Inr table
         \<and> rows (head 10 df) = take 10 (rows df)
         \<and> length (rows (head 10 df)) \<le> 10
         \<and> (\<forall>df'. columns df' = columns df \<and> take 10 (rows df') = take 10 (rows df)
               \<longrightarrow> to_markdown pd (head 10 df') = Inr table)"
proof -
  from assms have "read_csv_blob_body pd self blob_name = Inr table"
    by (simp add: read_csv_blob_body_def and_then_Inr)
  then have r: "read_csv_blob pd self blob_name = Inr table"
    by (simp add: read_csv_blob_def try_except_Inr)
  have same: "\<forall>df'. columns df' = columns df \<and> take 10 (rows df') = take 10 (rows df)
               \<longrightarrow> to_markdown pd (head 10 df') = Inr table"
  proof (intro allI impI)
    fix df' :: "'c dataframe"
    assume "columns df' = columns df \<and> take 10 (rows df') = take 10 (rows df)"
    then have "head 10 df' = head 10 df"
      by (simp add: head_def dataframe.equality)
    with assms(4) show "to_markdown pd (head 10 df') = Inr table"
      by simp
  qed
  from r same show ?thesis
    by (simp add: head_rows)
qed

text \<open>The theorem at a blob of twelve rows, of which ten are drawn.\<close>

theorem read_csv_blob_preview_witness:
  "blob_exists (the_container_client sales_plugin) ''a.csv'' = Inr True
   \<and> download_blob (the_container_client sales_plugin) ''a.csv'' = Inr ''x,y''
   \<and> read_csv row_counting_pandas ''x,y'' = Inr twelve_rows
   \<and> length (rows twelve_rows) = 12
   \<and> to_markdown row_counting_pandas (head 10 twelve_rows) = Inr ''||||||||||''
   \<and> read_csv_blob row_counting_pandas sales_plugin ''a.csv'' = Inr ''||||||||||''"
proof -
  have h1: "blob_exists (the_container_client sales_plugin) ''a.csv'' = Inr True"
    by (simp add: sales_plugin_def memory_container_def)
  have h2: "download_blob (the_container_client sales_plugin) ''a.csv'' = Inr ''x,y''"
    by (simp add: sales_plugin_def memory_container_def)
  have h3: "read_csv row_counting_pandas ''x,y'' = Inr twelve_rows"
    by (simp add: row_counting_pandas_def)
  have len: "length (rows twelve_rows) = 12"
    by (simp add: twelve_rows_def)
  have h4: "to_markdown row_counting_pandas (head 10 twelve_rows) = Inr ''||||||||||''"
    by (simp add: row_counting_pandas_def count_rows_def head_def len) code_simp
  from read_csv_blob_preview [OF h1 h2 h3 h4] h1 h2 h3 h4 len show ?thesis
    by simp
qed

section \<open>The transcript and the chat loop\<close>

lemma appends_append: "appends h es = h @ es"
  unfolding appends_def by (induction es arbitrary: h) (simp_all add: add_message_def)

lemma chat_turn_history:
  "history (chat_turn provider st user_input) =
     history st @ [User user_input] @ tool_entries (provider (history st @ [User user_input]))
       @ (case result (provider (history st @ [User user_input])) of
            Inl e \<Rightarrow> [] | Inr content \<Rightarrow> [Assistant content])"
  by (simp add: chat_turn_def Let_def appends_append add_user_message_def add_message_def
      split: sum.splits)

lemma chat_turn_prefix: "prefix (history st) (history (chat_turn provider st user_input))"
  by (simp add: chat_turn_history)

lemma chat_loop_prefix: "prefix (history st) (history (fst (chat_loop provider st stdin)))"
proof (induction stdin arbitrary: st)
  case Nil
  show ?case by simp
next
  case (Cons user_input rest)
  let ?st1 = "st\<lparr>trace := trace st @ [Input user_input]\<rparr>"
  show ?case
  proof (cases "is_exit_command user_input")
    case True
    then show ?thesis by simp
  next
    case False
    have "prefix (history ?st1) (history (chat_turn provider ?st1 user_input))"
      by (rule chat_turn_prefix)
    moreover have "prefix (history (chat_turn provider ?st1 user_input))
        (history (fst (chat_loop provider (chat_turn provider ?st1 user_input) rest)))"
      by (rule Cons.IH)
    ultimately have "prefix (history ?st1)
        (history (fst (chat_loop provider (chat_turn provider ?st1 user_input) rest)))"
      by (rule prefix_order.trans)
    with False show ?thesis by (simp add: Let_def)
  qed
qed

text \<open>
  Claim C7. A transcript built by appends holds exactly the appended entries, in the order
  of the appends, so its snapshot after \<open>N\<close> appends has length \<open>N\<close>. In the chat loop
  the transcript only grows at its end: what it held before a turn, and before any run of
  the loop, is a prefix of what it holds after, so no entry is edited or removed.
\<close>

theorem transcript_append_only:
  "snapshot (appends [] es) = es
   \<and> length (snapshot (appends [] es)) = length es
   \<and> snapshot (appends h es) = snapshot h @ es
   \<and> prefix (snapshot (history st)) (snapshot (history (chat_turn provider st user_input)))
   \<and> prefix (snapshot (history st)) (snapshot (history (fst (chat_loop provider st stdin))))"
  by (simp add: snapshot_def appends_append chat_turn_prefix chat_loop_prefix)

text \<open>
  Claim C6. When the completion call of a turn raises, the loop prints the one line
  \<^verbatim>\<open>Error during chat: \<close> with the text of the exception and goes on with the next
  line of input. The transcript keeps all it held, the user message of the failed turn and
  whatever tool entries the call had added before it failed; nothing is taken away, so the
  whole run ends with a transcript that still begins with them.
\<close>

theorem provider_failure_keeps_transcript:
  assumes "\<not> is_exit_command user_input"
    and "provider (add_user_message (history st) user_input) = \<lparr>tool_entries = added, result = Inl e\<rparr>"
  shows "chat_loop provider st (user_input # rest) =
           chat_loop provider
             \<lparr>history = history st @ [User user_input] @ added,
              trace = trace st @ [Input user_input, Print (''Error during chat: '' @ exc_str e)]\<rparr>
             rest
         \<and> prefix (history st @ [User user_input])
             (history (fst (chat_loop provider st (user_input # rest))))"
proof -
  let ?st1 = "st\<lparr>trace := trace st @ [Input user_input]\<rparr>"
  let ?st2 = "\<lparr>history = history st @ [User user_input] @ added,
              trace = trace st @ [Input user_input, Print (''Error during chat: '' @ exc_str e)]\<rparr>"
  from assms(2) have "chat_turn provider ?st1 user_input = ?st2"
    by (simp add: chat_turn_def Let_def appends_append add_user_message_def add_message_def)
  with assms(1) have loop: "chat_loop provider st (user_input # rest) = chat_loop provider ?st2 rest"
    by (simp add: Let_def)
  have "prefix (history ?st2) (history (fst (chat_loop provider ?st2 rest)))"
    by (rule chat_loop_prefix)
  then have "prefix (history st @ [User user_input]) (history (fst (chat_loop provider ?st2 rest)))"
    by (auto simp add: prefix_def)
  with loop show ?thesis by simp
qed

text \<open>The theorem at a provider that fails on the first turn and answers the second.\<close>

theorem provider_failure_keeps_transcript_witness:
  "\<not> is_exit_command ''hello''
   \<and> failing_once (add_user_message [System ''sys''] ''hello'')
       = \<lparr>tool_entries = [], result = Inl (PyException ''ServiceResponseException'' ''connection reset'')\<rparr>
   \<and> chat_loop failing_once \<lparr>history = [System ''sys''], trace = []\<rparr> [''hello'', ''list'', ''quit'']
       = (\<lparr>history = [System ''sys'', User ''hello'', User ''list'',
                       ToolResult ''list_blobs'' ''a.csv, b.csv'', Assistant ''Two files.''],
            trace = [Input ''hello'', Print ''Error during chat: connection reset'',
                     Input ''list'', Print (''Agent: Two files.'' @ [CHR 0x0A]), Input ''quit'']\<rparr>,
          Returned)"
proof -
  have h1: "\<not> is_exit_command ''hello''"
    by (simp add: is_exit_command_def py_lower_def lower_char_def)
  have h2: "failing_once (add_user_message (history \<lparr>history = [System ''sys''], trace = []\<rparr>) ''hello'')
       = \<lparr>tool_entries = [], result = Inl (PyException ''ServiceResponseException'' ''connection reset'')\<rparr>"
    by (simp add: failing_once_def add_user_message_def add_message_def)
  have h3: "\<not> is_exit_command ''list''"
    by (simp add: is_exit_command_def py_lower_def lower_char_def)
  have h4: "is_exit_command ''quit''"
    by (simp add: is_exit_command_def py_lower_def lower_char_def)
  from provider_failure_keeps_transcript [where provider = failing_once
      and st = "\<lparr>history = [System ''sys''], trace = []\<rparr>" and user_input = "''hello''"
      and added = "[]" and e = "PyException ''ServiceResponseException'' ''connection reset''"
      and rest = "[''list'', ''quit'']"] h1 h2 h3 h4
  show ?thesis
    by (simp add: chat_turn_def Let_def appends_append add_user_message_def add_message_def failing_once_def)
qed

lemma lower_char_exit_letters:
  "lower_char c = CHR ''e'' \<longleftrightarrow> same_letter c CHR ''e''"
  "lower_char c = CHR ''x'' \<longleftrightarrow> same_letter c CHR ''x''"
  "lower_char c = CHR ''i'' \<longleftrightarrow> same_letter c CHR ''i''"
  "lower_char c = CHR ''t'' \<longleftrightarrow> same_letter c CHR ''t''"
  "lower_char c = CHR ''q'' \<longleftrightarrow> same_letter c CHR ''q''"
  "lower_char c = CHR ''u'' \<longleftrightarrow> same_letter c CHR ''u''"
  by (auto simp add: lower_char_def same_letter_def)

lemma py_lower_exit: "py_lower s = ''exit'' \<longleftrightarrow> eq_ignore_case s ''exit''"
  by (auto simp add: py_lower_def eq_ignore_case_def list_all2_Cons2 lower_char_exit_letters)

lemma py_lower_quit: "py_lower s = ''quit'' \<longleftrightarrow> eq_ignore_case s ''quit''"
  by (auto simp add: py_lower_def eq_ignore_case_def list_all2_Cons2 lower_char_exit_letters)

lemma is_exit_command_iff:
  "is_exit_command s \<longleftrightarrow> eq_ignore_case s ''exit'' \<or> eq_ignore_case s ''quit''"
  by (simp add: is_exit_command_def py_lower_exit py_lower_quit)

text \<open>
  Claim C8. A line that is \<^verbatim>\<open>exit\<close> or \<^verbatim>\<open>quit\<close> up to the case of its letters ends the
  loop at once: \<^verbatim>\<open>main\<close> returns and the process exits with code 0, whatever input
  follows. Every other line is a user turn: it is appended to the transcript as a user
  message and the loop goes on with the rest of the input. So a run on one line of input
  ends with exit code 0 exactly when that line is such a command.
\<close>

theorem exit_command_ends_loop:
  "(eq_ignore_case user_input ''exit'' \<or> eq_ignore_case user_input ''quit'' \<longrightarrow>
      chat_loop provider st (user_input # rest) = (st\<lparr>trace := trace st @ [Input user_input]\<rparr>, Returned)
      \<and> exit_code (snd (chat_loop provider st (user_input # rest))) = 0)
   \<and> (\<not> (eq_ignore_case user_input ''exit'' \<or> eq_ignore_case user_input ''quit'') \<longrightarrow>
      chat_loop provider st (user_input # rest) =
        chat_loop provider (chat_turn provider (st\<lparr>trace := trace st @ [Input user_input]\<rparr>) user_input) rest
      \<and> prefix (history st @ [User user_input])
          (history (chat_turn provider (st\<lparr>trace := trace st @ [Input user_input]\<rparr>) user_input)))
   \<and> (exit_code (snd (chat_loop provider st [user_input])) = 0
        \<longleftrightarrow> eq_ignore_case user_input ''exit'' \<or> eq_ignore_case user_input ''quit'')"
  by (simp add: is_exit_command_iff [symmetric] Let_def chat_turn_history)

text \<open>The theorem at the lines \<^verbatim>\<open>QuIt\<close> and \<^verbatim>\<open>exit now\<close>.\<close>

theorem exit_command_ends_loop_witness:
  "eq_ignore_case ''QuIt'' ''quit''
   \<and> chat_loop echo \<lparr>history = [], trace = []\<rparr> [''QuIt'', ''more'']
       = (\<lparr>history = [], trace = [Input ''QuIt'']\<rparr>, Returned)
   \<and> \<not> (eq_ignore_case ''exit now'' ''exit'' \<or> eq_ignore_case ''exit now'' ''quit'')
   \<and> chat_loop echo \<lparr>history = [], trace = []\<rparr> [''exit now'']
       = (\<lparr>history = [User ''exit now'', Assistant ''ok''],
            trace = [Input ''exit now'', Print (''Agent: ok'' @ [CHR 0x0A])]\<rparr>,
          Propagated (PyException ''EOFError'' ''EOF when reading a line''))"
proof -
  have h1: "eq_ignore_case ''QuIt'' ''quit''"
    by (simp add: eq_ignore_case_def same_letter_def)
  have h2: "\<not> (eq_ignore_case ''exit now'' ''exit'' \<or> eq_ignore_case ''exit now'' ''quit'')"
    by (simp add: eq_ignore_case_def same_letter_def)
  from exit_command_ends_loop [of "''QuIt''" echo "\<lparr>history = [], trace = []\<rparr>" "[''more'']"]
    exit_command_ends_loop [of "''exit now''" echo "\<lparr>history = [], trace = []\<rparr>" "[]"] h1 h2
  show ?thesis
    by (simp add: chat_turn_def Let_def appends_append add_user_message_def add_message_def echo_def)
qed

section \<open>Start-up\<close>

lemma py_all_variables:
  "py_all (map g vs) \<longleftrightarrow> (\<forall>v \<in> set vs. truthy (g v))"
  by (induction vs) simp_all

lemma openai_test:
  "py_all [getenv w ''AZURE_OPENAI_DEPLOYMENT_NAME'', getenv w ''AZURE_OPENAI_ENDPOINT'',
           getenv w ''AZURE_OPENAI_API_KEY''] \<longleftrightarrow> (\<forall>v \<in> set openai_variables. truthy (getenv w v))"
  by (simp add: openai_variables_def)

lemma storage_test:
  "py_all [getenv w ''AZURE_STORAGE_ACCOUNT_NAME'', getenv w ''AZURE_STORAGE_ACCOUNT_KEY'',
           getenv w ''AZURE_STORAGE_CONTAINER_NAME''] \<longleftrightarrow> (\<forall>v \<in> set storage_variables. truthy (getenv w v))"
  by (simp add: storage_variables_def)

lemma main_without_openai:
  assumes "\<exists>v \<in> set openai_variables. \<not> truthy (getenv w v)"
  shows "main w stdin = (\<lparr>history = [], trace = [Print missing_openai_message]\<rparr>, Returned)"
proof -
  from assms have "\<not> py_all [getenv w ''AZURE_OPENAI_DEPLOYMENT_NAME'', getenv w ''AZURE_OPENAI_ENDPOINT'',
           getenv w ''AZURE_OPENAI_API_KEY'']"
    unfolding openai_test by blast
  then show ?thesis
    by (simp add: main_def Let_def)
qed

lemma plugin_without_storage:
  assumes "\<exists>v \<in> set storage_variables. \<not> truthy (getenv w v)"
  shows "BlobStoragePlugin_init w =
     Inl (PyException ''ValueError'' ''Azure Blob Storage credentials are missing in .env file.'')"
proof -
  from assms have "\<not> py_all [getenv w ''AZURE_STORAGE_ACCOUNT_NAME'', getenv w ''AZURE_STORAGE_ACCOUNT_KEY'',
           getenv w ''AZURE_STORAGE_CONTAINER_NAME'']"
    unfolding storage_test by blast
  then show ?thesis
    by (simp add: BlobStoragePlugin_init_def Let_def)
qed

lemma main_without_storage:
  assumes "\<forall>v \<in> set openai_variables. truthy (getenv w v)"
    and "\<exists>v \<in> set storage_variables. \<not> truthy (getenv w v)"
  shows "main w stdin =
     (case azure_chat_completion w (the (getenv w ''AZURE_OPENAI_DEPLOYMENT_NAME''))
             (the (getenv w ''AZURE_OPENAI_ENDPOINT'')) (the (getenv w ''AZURE_OPENAI_API_KEY''))
             ''2025-01-01-preview'' of
        Some e \<Rightarrow> (\<lparr>history = [], trace = []\<rparr>, Propagated e)
      | None \<Rightarrow> (\<lparr>history = [], trace = [Print missing_storage_message]\<rparr>, Returned))"
proof -
  from assms(1) have ok: "py_all [getenv w ''AZURE_OPENAI_DEPLOYMENT_NAME'', getenv w ''AZURE_OPENAI_ENDPOINT'',
           getenv w ''AZURE_OPENAI_API_KEY'']"
    unfolding openai_test .
  have msg: "''Failed to initialize BlobStoragePlugin: '' @
      ''Azure Blob Storage credentials are missing in .env file.'' = missing_storage_message"
    by (simp add: missing_storage_message_def)
  show ?thesis
    unfolding main_def Let_def plugin_without_storage [OF assms(2)] and_then_Inl
    using ok msg by (simp split: option.splits)
qed

text \<open>
  Claim C5, as the code has it. \<^verbatim>\<open>main\<close> reads three variables for the chat service:
  deployment name, endpoint and API key. When one of them is unset or empty, it prints one
  message and returns without reading any input. When the three are set and one of the
  three storage credentials is unset or empty, then, unless building the chat service
  raises (which ends the process with that exception), it prints that the plugin could not
  be initialised and returns, again before the shell starts. The API version is the
  constant \<^verbatim>\<open>2025-01-01-preview\<close> of the program and is not read from the environment.
\<close>

theorem startup_requires_credentials:
  "((\<exists>v \<in> set openai_variables. \<not> truthy (getenv w v)) \<longrightarrow>
      main w stdin = (\<lparr>history = [], trace = [Print missing_openai_message]\<rparr>, Returned))
   \<and> ((\<forall>v \<in> set openai_variables. truthy (getenv w v))
        \<and> (\<exists>v \<in> set storage_variables. \<not> truthy (getenv w v)) \<longrightarrow>
      main w stdin =
        (case azure_chat_completion w (the (getenv w ''AZURE_OPENAI_DEPLOYMENT_NAME''))
                (the (getenv w ''AZURE_OPENAI_ENDPOINT'')) (the (getenv w ''AZURE_OPENAI_API_KEY''))
                ''2025-01-01-preview'' of
           Some e \<Rightarrow> (\<lparr>history = [], trace = []\<rparr>, Propagated e)
         | None \<Rightarrow> (\<lparr>history = [], trace = [Print missing_storage_message]\<rparr>, Returned)))"
  using main_without_openai [of w stdin] main_without_storage [of w stdin] by blast

text \<open>The theorem at an environment without API key and at one without container name.\<close>

theorem startup_requires_credentials_witness:
  "getenv (demo_world no_api_key) ''AZURE_OPENAI_API_KEY'' = None
   \<and> main (demo_world no_api_key) [''hello'', ''exit'']
       = (\<lparr>history = [], trace = [Print missing_openai_message]\<rparr>, Returned)
   \<and> getenv (demo_world no_container_name) ''AZURE_STORAGE_CONTAINER_NAME'' = None
   \<and> main (demo_world no_container_name) [''hello'', ''exit'']
       = (\<lparr>history = [], trace = [Print missing_storage_message]\<rparr>, Returned)"
proof -
  have k: "getenv (demo_world no_api_key) ''AZURE_OPENAI_API_KEY'' = None"
    by (simp add: demo_world_def no_api_key_def)
  have c: "getenv (demo_world no_container_name) ''AZURE_STORAGE_CONTAINER_NAME'' = None"
    by (simp add: demo_world_def no_container_name_def)
  have h1: "\<exists>v \<in> set openai_variables. \<not> truthy (getenv (demo_world no_api_key) v)"
    by (simp add: openai_variables_def k)
  have h2: "\<forall>v \<in> set openai_variables. truthy (getenv (demo_world no_container_name) v)"
    by (simp add: openai_variables_def demo_world_def no_container_name_def)
  have h3: "\<exists>v \<in> set storage_variables. \<not> truthy (getenv (demo_world no_container_name) v)"
    by (simp add: storage_variables_def c)
  have h4: "azure_chat_completion (demo_world no_container_name) d e k v = None" for d e k v
    by (simp add: demo_world_def)
  from startup_requires_credentials [of "demo_world no_api_key" "[''hello'', ''exit'']"]
    startup_requires_credentials [of "demo_world no_container_name" "[''hello'', ''exit'']"]
    h1 h2 h3 k c
  show ?thesis
    by (simp add: h4)
qed

text \<open>
  Claim C5 as written counts an API version among the variables whose absence stops the
  program. With the six variables that \<^verbatim>\<open>main\<close> reads set and no variable for the API
  version, the shell starts: the banner is printed and a line of input is read.
\<close>

theorem api_version_not_required_counterexample:
  "getenv (demo_world six_variables) ''AZURE_OPENAI_API_VERSION'' = None
   \<and> main (demo_world six_variables) [''exit'']
       = (\<lparr>history = [System system_message], trace = banner @ [Input ''exit'']\<rparr>, Returned)"
proof -
  have "is_exit_command ''exit''"
    by (simp add: is_exit_command_def py_lower_def lower_char_def)
  then show ?thesis
    by (simp add: main_def Let_def demo_world_def six_variables_def BlobStoragePlugin_init_def
        and_then_def add_system_message_def add_message_def)
qed

text \<open>
  No other variable matters to \<^verbatim>\<open>main\<close>: two environments that agree on the six
  variables give the same run.
\<close>

lemma plugin_init_reads_three_variables:
  assumes "\<forall>v \<in> set storage_variables. g v = getenv w v"
  shows "BlobStoragePlugin_init (w\<lparr>getenv := g\<rparr>) = BlobStoragePlugin_init w"
  using assms by (simp add: BlobStoragePlugin_init_def Let_def storage_variables_def)

lemma main_reads_six_variables:
  assumes "\<forall>v \<in> set (openai_variables @ storage_variables). g v = getenv w v"
  shows "main (w\<lparr>getenv := g\<rparr>) stdin = main w stdin"
proof -
  from assms have "\<forall>v \<in> set storage_variables. g v = getenv w v"
    by simp
  then have init: "BlobStoragePlugin_init (w\<lparr>getenv := g\<rparr>) = BlobStoragePlugin_init w"
    by (rule plugin_init_reads_three_variables)
  from assms have "g ''AZURE_OPENAI_DEPLOYMENT_NAME'' = getenv w ''AZURE_OPENAI_DEPLOYMENT_NAME''"
    and "g ''AZURE_OPENAI_ENDPOINT'' = getenv w ''AZURE_OPENAI_ENDPOINT''"
    and "g ''AZURE_OPENAI_API_KEY'' = getenv w ''AZURE_OPENAI_API_KEY''"
    by (simp_all add: openai_variables_def)
  then show ?thesis
    by (simp add: main_def Let_def init split: option.splits sum.splits)
qed

section \<open>The connection test\<close>

lemma api_key_line_masked:
  "api_key_line k =
     (case map_option (take 5) k of
        None \<Rightarrow> ''API Key: None''
      | Some shown \<Rightarrow> if shown = [] then ''API Key: None'' else ''API Key: '' @ shown @ ''...'')"
  by (cases k) (simp_all add: api_key_line_def)

lemma api_key_line_shown:
  "key \<noteq> [] \<Longrightarrow> api_key_line (Some key) = ''API Key: '' @ take 5 key @ ''...''"
  by (simp add: api_key_line_def)

text \<open>
  The four lines about the configuration depend on the API key only through its first five
  characters and through whether it is set.
\<close>

lemma diagnostics_first_five:
  assumes "env1 ''AZURE_OPENAI_ENDPOINT'' = env2 ''AZURE_OPENAI_ENDPOINT''"
    and "env1 ''AZURE_OPENAI_DEPLOYMENT_NAME'' = env2 ''AZURE_OPENAI_DEPLOYMENT_NAME''"
    and "map_option (take 5) (env1 ''AZURE_OPENAI_API_KEY'')
         = map_option (take 5) (env2 ''AZURE_OPENAI_API_KEY'')"
  shows "diagnostics env1 = diagnostics env2"
proof -
  have "api_key_line (env1 ''AZURE_OPENAI_API_KEY'') = api_key_line (env2 ''AZURE_OPENAI_API_KEY'')"
    by (simp only: api_key_line_masked assms(3))
  with assms(1,2) show ?thesis
    by (simp add: diagnostics_def Let_def)
qed

text \<open>
  A key of at most five characters is its own first five characters, so the line about the
  key holds all of it.
\<close>

lemma short_key_in_line:
  assumes "key \<noteq> []" and "length key \<le> 5"
  shows "api_key_line (Some key) = ''API Key: '' @ key @ ''...''"
    and "sublist key (api_key_line (Some key))"
proof -
  from assms show line: "api_key_line (Some key) = ''API Key: '' @ key @ ''...''"
    by (simp add: api_key_line_def)
  show "sublist key (api_key_line (Some key))"
    unfolding line by (rule sublist_appendI)
qed

text \<open>
  Claim C10. The comment above the line about the key says that the full key is not to be
  printed, only its first few characters, and the claim says that the script never prints
  the full key. With the key \<^verbatim>\<open>abc\<close> in the environment the script prints
  \<^verbatim>\<open>API Key: abc...\<close>: the slice \<^verbatim>\<open>api_key[:5]\<close> of a key of five characters or fewer
  is the whole key, and the line holds it.
\<close>

theorem short_key_printed_whole:
  "key_env ''abc'' ''AZURE_OPENAI_API_KEY'' = Some ''abc''
   \<and> api_key_line (Some ''abc'') = ''API Key: abc...''
   \<and> sublist ''abc'' (api_key_line (Some ''abc''))
   \<and> test_openai_main accepting_service (Inr ''Hello'') (key_env ''abc'')
       = [''Testing Azure OpenAI Connection...'', ''Endpoint: https://example.openai.azure.com'',
          ''Deployment: gpt-4o'', ''API Key: abc...'',
          ''Service object created.'', ''Sending request...'', ''Success! Response: Hello'']"
proof -
  have env: "key_env ''abc'' ''AZURE_OPENAI_API_KEY'' = Some ''abc''"
    by (simp add: key_env_def)
  have line: "api_key_line (Some ''abc'') = ''API Key: abc...''"
    by (simp add: api_key_line_def)
  have "sublist ''abc'' (''API Key: '' @ ''abc'' @ ''...'')"
    by (rule sublist_appendI)
  then have sub: "sublist ''abc'' (api_key_line (Some ''abc''))"
    by (simp add: line)
  have out: "test_openai_main accepting_service (Inr ''Hello'') (key_env ''abc'')
       = [''Testing Azure OpenAI Connection...'', ''Endpoint: https://example.openai.azure.com'',
          ''Deployment: gpt-4o'', ''API Key: abc...'',
          ''Service object created.'', ''Sending request...'', ''Success! Response: Hello'']"
    by (simp add: test_openai_main_def diagnostics_def connection_test_def Let_def key_env_def
        api_key_line_def accepting_service_def)
  from env line sub out show ?thesis by simp
qed

text \<open>
  The line about a failure repeats the text of the exception as it is. When the service
  refuses a key with a text that quotes it, two keys with the same first five characters
  give different output, and the failure line holds the whole key.
\<close>

lemma failure_line_repeats_exception:
  "test_openai_main quoting_service request (key_env ''0123456789abcdef'')
     = [''Testing Azure OpenAI Connection...'', ''Endpoint: https://example.openai.azure.com'',
        ''Deployment: gpt-4o'', ''API Key: 01234...'',
        ''Connection Failed: invalid api key 0123456789abcdef'']"
  "test_openai_main quoting_service request (key_env ''0123456789abcdef'')
     \<noteq> test_openai_main quoting_service request (key_env ''01234fedcba98765'')"
  by (simp_all add: test_openai_main_def diagnostics_def connection_test_def Let_def key_env_def
      api_key_line_def quoting_service_def)

end
